theory Spec2Isabelle
  imports Main "HOL-Library.Word"
begin

section \<open>JavaScript values\<close>

text \<open>
  A JavaScript string is a sequence of UTF-16 code units. \<open>lit\<close> embeds an ASCII literal
  of the source (\<^verbatim>\<open>'connected'\<close>, \<^verbatim>\<open>'Title required'\<close>).
\<close>

type_synonym jsstring = "16 word list"

definition lit :: "string \<Rightarrow> jsstring" where
  "lit s = map of_char s"

text \<open>
  The values a handler sees in \<^verbatim>\<open>req.body\<close> and puts into \<^verbatim>\<open>res.json\<close>. Numbers are
  the integers (the handlers only test a number for truthiness and echo it). \<open>JDate t\<close> is
  a \<^verbatim>\<open>Date\<close> at \<open>t\<close> milliseconds since the epoch; \<^verbatim>\<open>res.json\<close> writes it as its
  ISO-8601 string, which is also what \<^verbatim>\<open>toISOString()\<close> returns. The keys of an object
  are ASCII; an object is the list of its members in order.
\<close>

datatype json =
    JUndefined
  | JNull
  | JBool bool
  | JNum int
  | JStr jsstring
  | JDate int
  | JArr "json list"
  | JObj "(string \<times> json) list"

datatype js_error = TypeError | ValidationError | MongoError

text \<open>Truthiness, as \<^verbatim>\<open>!x\<close> and \<^verbatim>\<open>x || y\<close> test it.\<close>

fun truthy :: "json \<Rightarrow> bool" where
  "truthy JUndefined = False"
| "truthy JNull = False"
| "truthy (JBool b) = b"
| "truthy (JNum n) = (n \<noteq> 0)"
| "truthy (JStr s) = (s \<noteq> [])"
| "truthy (JDate t) = True"
| "truthy (JArr xs) = True"
| "truthy (JObj kvs) = True"

text \<open>\<^verbatim>\<open>!x\<close>\<close>

definition js_not :: "json \<Rightarrow> bool" where
  "js_not v \<longleftrightarrow> \<not> truthy v"

text \<open>Reading a member: \<^verbatim>\<open>undefined\<close> when the object has none of that name.\<close>

fun jget :: "json \<Rightarrow> string \<Rightarrow> json" where
  "jget (JObj kvs) k = (case map_of kvs k of Some v \<Rightarrow> v | None \<Rightarrow> JUndefined)"
| "jget v k = JUndefined"

text \<open>
  Destructuring \<^verbatim>\<open>const { k } = body\<close>: a TypeError on \<^verbatim>\<open>undefined\<close> and \<^verbatim>\<open>null\<close>,
  the member otherwise (a primitive, an array or a date has no member of the names used).
\<close>

fun destructure :: "json \<Rightarrow> string \<Rightarrow> js_error + json" where
  "destructure JUndefined k = Inl TypeError"
| "destructure JNull k = Inl TypeError"
| "destructure v k = Inr (jget v k)"

text \<open>
  \<^verbatim>\<open>String.prototype.trim\<close> removes the code units of ECMAScript's WhiteSpace and
  LineTerminator productions from both ends.
\<close>

definition is_ws :: "16 word \<Rightarrow> bool" where
  "is_ws c \<longleftrightarrow>
     c \<in> {0x9, 0xA, 0xB, 0xC, 0xD, 0x20, 0xA0, 0x1680, 0x2028, 0x2029, 0x202F, 0x205F,
          0x3000, 0xFEFF}
     \<or> (0x2000 \<le> c \<and> c \<le> 0x200A)"

definition trim :: "jsstring \<Rightarrow> jsstring" where
  "trim s = rev (dropWhile is_ws (rev (dropWhile is_ws s)))"

text \<open>
  \<^verbatim>\<open>v.trim()\<close>: only a string has the method; on any other truthy value of a parsed body
  \<^verbatim>\<open>v.trim\<close> is not a function and the call throws.
\<close>

fun call_trim :: "json \<Rightarrow> js_error + json" where
  "call_trim (JStr s) = Inr (JStr (trim s))"
| "call_trim v = Inl TypeError"

text \<open>\<^verbatim>\<open>a || b\<close> on an optional string (an environment variable, an optional argument).\<close>

fun or_str :: "jsstring option \<Rightarrow> jsstring \<Rightarrow> jsstring" where
  "or_str None b = b"
| "or_str (Some a) b = (if a \<noteq> [] then a else b)"

section \<open>db.ts: the connection\<close>

text \<open>\<^verbatim>\<open>mongoose.connection\<close>, as far as db.ts reads it.\<close>

record connection =
  readyState :: nat
  host :: "jsstring option"
  port :: "int option"

text \<open>The connection of a process that has not called \<^verbatim>\<open>mongoose.connect\<close>.\<close>

definition initial_connection :: connection where
  "initial_connection = \<lparr>readyState = 0, host = None, port = None\<rparr>"

datatype event =
    ConsoleWarn
  | ConsoleLog
  | ConsoleError
  | MongooseConnect jsstring
  | TaskFind
  | TaskCreate
  | UserFind
  | UserFindOne
  | UserCreate

datatype 'a promise = Resolved 'a | Rejected js_error

datatype connect_value = Mongoose | Null

text \<open>
  \<^verbatim>\<open>mongoose.connect(uri, DEFAULT_OPTIONS)\<close>. What the attempt meets is the environment's:
  \<open>driver uri\<close> is the error it ends with (timeout, authentication, network), or the
  host and port it reaches. A failed attempt leaves \<^verbatim>\<open>readyState\<close> at 0.
\<close>

definition mongoose_connect ::
  "(jsstring \<Rightarrow> js_error + jsstring \<times> int) \<Rightarrow> jsstring \<Rightarrow> connection
    \<Rightarrow> (js_error + unit) \<times> connection" where
  "mongoose_connect driver uri c =
     (case driver uri of
        Inl e \<Rightarrow> (Inl e, c\<lparr>readyState := 0\<rparr>)
      | Inr (h, p) \<Rightarrow> (Inr (), c\<lparr>readyState := 1, host := Some h, port := Some p\<rparr>))"

text \<open>
  \<^verbatim>\<open>const MONGO_URI = process.env.MONGO_URI || process.env.DATABASE_URL || ''\<close>
\<close>

definition MONGO_URI :: "jsstring option \<Rightarrow> jsstring option \<Rightarrow> jsstring" where
  "MONGO_URI env_MONGO_URI env_DATABASE_URL = or_str env_MONGO_URI (or_str env_DATABASE_URL [])"

text \<open>
  \<^verbatim>\<open>connectDB(mongoUri?)\<close>: the promise it returns, the connection afterwards, and what
  it logged and attempted.
\<close>

definition connectDB ::
  "(jsstring \<Rightarrow> js_error + jsstring \<times> int) \<Rightarrow> jsstring option \<Rightarrow> jsstring option
    \<Rightarrow> jsstring option \<Rightarrow> connection \<Rightarrow> connect_value promise \<times> connection \<times> event list" where
  "connectDB driver env_MONGO_URI env_DATABASE_URL mongoUri c =
     (let uri = or_str mongoUri (MONGO_URI env_MONGO_URI env_DATABASE_URL) in
      if uri = [] then (Resolved Null, c, [ConsoleWarn])
      else
        (case mongoose_connect driver uri c of
           (Inr u, c') \<Rightarrow> (Resolved Mongoose, c', [MongooseConnect uri, ConsoleLog])
         | (Inl err, c') \<Rightarrow> (Resolved Null, c', [MongooseConnect uri, ConsoleError])))"

definition stateMap :: "nat \<Rightarrow> string option" where
  "stateMap n =
     (if n = 0 then Some ''disconnected''
      else if n = 1 then Some ''connected''
      else if n = 2 then Some ''connecting''
      else if n = 3 then Some ''disconnecting''
      else None)"

definition getDBState :: "connection \<Rightarrow> json" where
  "getDBState c =
     JObj [(''readyState'', JNum (int (readyState c))),
           (''state'', JStr (lit (case stateMap (readyState c) of Some s \<Rightarrow> s | None \<Rightarrow> ''unknown''))),
           (''host'', case host c of Some h \<Rightarrow> if h \<noteq> [] then JStr h else JNull | None \<Rightarrow> JNull),
           (''port'', case port c of Some p \<Rightarrow> if p \<noteq> 0 then JNum p else JNull | None \<Rightarrow> JNull)]"

text \<open>\<^verbatim>\<open>getDBState().state === 'connected'\<close>\<close>

definition connected :: "connection \<Rightarrow> bool" where
  "connected c \<longleftrightarrow> jget (getDBState c) ''state'' = JStr (lit ''connected'')"

section \<open>The persistent store\<close>

text \<open>
  A stored Task, as \<^verbatim>\<open>TaskSchema\<close> with \<^verbatim>\<open>timestamps: true\<close> and Mongoose's version key
  give it: \<^verbatim>\<open>_id\<close>, \<^verbatim>\<open>title\<close>, \<^verbatim>\<open>completed\<close>, \<^verbatim>\<open>createdAt\<close>, \<^verbatim>\<open>updatedAt\<close>, \<^verbatim>\<open>__v\<close>.
\<close>

record task_doc =
  t_id :: jsstring
  t_title :: jsstring
  t_completed :: bool
  t_createdAt :: int
  t_updatedAt :: int
  t_v :: int

text \<open>
  Modelled from the spec: \<^verbatim>\<open>models/user\<close> (the User schema behind \<^verbatim>\<open>UserModel\<close>) is not
  among the sources. The spec's User is \<^verbatim>\<open>{id (generated), name (non-empty string),
  email (non-empty string, unique when persisted), createdAt (timestamp)}\<close>, with an
  internal versioning field that \<^verbatim>\<open>list\<close> strips; the handler reads \<^verbatim>\<open>_id\<close>, \<^verbatim>\<open>name\<close>,
  \<^verbatim>\<open>email\<close> and \<^verbatim>\<open>createdAt\<close> of a created user.
\<close>

record user_doc =
  u_id :: jsstring
  u_name :: jsstring
  u_email :: jsstring
  u_createdAt :: int
  u_v :: int

text \<open>The collections, each in insertion order.\<close>

record store =
  tasks :: "task_doc list"
  users :: "user_doc list"

text \<open>
  What a request takes from its environment: the clock (\<open>now\<close> at the first reading,
  \<open>now_again\<close> at a second one in the same request), the ObjectId the driver gives an
  inserted document, and whether a read or a write of the store throws.
\<close>

record env =
  now :: int
  now_again :: int
  fresh_id :: jsstring
  read_fails :: bool
  write_fails :: bool

text \<open>A document as \<^verbatim>\<open>.lean()\<close> returns it and as \<^verbatim>\<open>res.json\<close> writes a created one.\<close>

definition lean_task :: "task_doc \<Rightarrow> json" where
  "lean_task d =
     JObj [(''_id'', JStr (t_id d)), (''title'', JStr (t_title d)),
           (''completed'', JBool (t_completed d)), (''createdAt'', JDate (t_createdAt d)),
           (''updatedAt'', JDate (t_updatedAt d)), (''__v'', JNum (t_v d))]"

definition toJSON_task :: "task_doc \<Rightarrow> json" where
  "toJSON_task d =
     JObj [(''title'', JStr (t_title d)), (''completed'', JBool (t_completed d)),
           (''_id'', JStr (t_id d)), (''createdAt'', JDate (t_createdAt d)),
           (''updatedAt'', JDate (t_updatedAt d)), (''__v'', JNum (t_v d))]"

definition lean_user :: "user_doc \<Rightarrow> json" where
  "lean_user d =
     JObj [(''_id'', JStr (u_id d)), (''name'', JStr (u_name d)), (''email'', JStr (u_email d)),
           (''createdAt'', JDate (u_createdAt d)), (''__v'', JNum (u_v d))]"

text \<open>\<^verbatim>\<open>.select('-k')\<close>: the projection that leaves the member \<open>k\<close> out.\<close>

fun select_minus :: "string \<Rightarrow> json \<Rightarrow> json" where
  "select_minus k (JObj kvs) = JObj (filter (\<lambda>(k', v). k' \<noteq> k) kvs)"
| "select_minus k v = v"

text \<open>
  \<^verbatim>\<open>TaskModel.find().sort({ createdAt: -1 })\<close>: the tasks in descending order of
  \<^verbatim>\<open>createdAt\<close> (among equal timestamps, in insertion order).
\<close>

definition TaskModel_find_sort :: "env \<Rightarrow> store \<Rightarrow> js_error + task_doc list" where
  "TaskModel_find_sort e st =
     (if read_fails e then Inl MongoError
      else Inr (sort_key (\<lambda>d. - t_createdAt d) (tasks st)))"

text \<open>
  \<^verbatim>\<open>TaskModel.create({ title, completed })\<close>. The schema casts \<^verbatim>\<open>title\<close> to a String,
  trims it (\<^verbatim>\<open>trim: true\<close>) and requires it (\<^verbatim>\<open>required: true\<close>: not empty after the
  trim); \<^verbatim>\<open>timestamps: true\<close> sets \<^verbatim>\<open>createdAt\<close> and \<^verbatim>\<open>updatedAt\<close> from one clock
  reading, and the version key starts at 0. A title that is not a string never reaches
  this call from the handler; it is refused here.
\<close>

definition TaskModel_create ::
  "env \<Rightarrow> json \<Rightarrow> bool \<Rightarrow> store \<Rightarrow> js_error + task_doc \<times> store" where
  "TaskModel_create e title completed st =
     (case title of
        JStr s \<Rightarrow>
          if trim s = [] then Inl ValidationError
          else if write_fails e then Inl MongoError
          else
            (let d = \<lparr>t_id = fresh_id e, t_title = trim s, t_completed = completed,
                       t_createdAt = now e, t_updatedAt = now e, t_v = 0\<rparr>
             in Inr (d, st\<lparr>tasks := tasks st @ [d]\<rparr>))
      | _ \<Rightarrow> Inl ValidationError)"

text \<open>
  Modelled from the spec: \<^verbatim>\<open>UserModel\<close> of \<^verbatim>\<open>models/user\<close>, not among the sources.
  \<^verbatim>\<open>find()\<close> is unordered (the collection as it stands), \<^verbatim>\<open>findOne({ email })\<close> is the
  uniqueness lookup by email, \<^verbatim>\<open>create({ name, email })\<close> inserts a user with a generated
  id and timestamp. Name and email are strings; any other value is refused.
\<close>

definition UserModel_find :: "env \<Rightarrow> store \<Rightarrow> js_error + user_doc list" where
  "UserModel_find e st = (if read_fails e then Inl MongoError else Inr (users st))"

definition UserModel_findOne :: "env \<Rightarrow> json \<Rightarrow> store \<Rightarrow> js_error + user_doc option" where
  "UserModel_findOne e email st =
     (case email of
        JStr a \<Rightarrow>
          if read_fails e then Inl MongoError
          else Inr (find (\<lambda>u. u_email u = a) (users st))
      | _ \<Rightarrow> Inl ValidationError)"

definition UserModel_create ::
  "env \<Rightarrow> json \<Rightarrow> json \<Rightarrow> store \<Rightarrow> js_error + user_doc \<times> store" where
  "UserModel_create e name email st =
     (case (name, email) of
        (JStr n, JStr a) \<Rightarrow>
          if write_fails e then Inl MongoError
          else
            (let d = \<lparr>u_id = fresh_id e, u_name = n, u_email = a, u_createdAt = now e, u_v = 0\<rparr>
             in Inr (d, st\<lparr>users := users st @ [d]\<rparr>))
      | _ \<Rightarrow> Inl ValidationError)"

section \<open>server.ts: the request handlers\<close>

text \<open>
  What a handler leaves: the response (status and JSON body), or the error it throws
  outside its \<^verbatim>\<open>try\<close>. With it come the store afterwards and the store operations and
  console errors of the request.
\<close>

datatype outcome = Response nat json | Unhandled js_error

definition error_body :: "string \<Rightarrow> json" where
  "error_body msg = JObj [(''error'', JStr (lit msg))]"

text \<open>\<^verbatim>\<open>app.get('/api/health')\<close>\<close>

definition get_health :: "int \<Rightarrow> jsstring option \<Rightarrow> connection \<Rightarrow> outcome" where
  "get_health clock env_NODE_ENV c =
     Response 200
       (JObj [(''status'', JStr (lit ''OK'')),
              (''message'', JStr (lit ''Server is running!'')),
              (''timestamp'', JDate clock),
              (''environment'', JStr (or_str env_NODE_ENV (lit ''development''))),
              (''db'', getDBState c)])"

text \<open>\<^verbatim>\<open>app.get('/api/users')\<close>\<close>

definition mock_users :: "json list" where
  "mock_users =
     [JObj [(''id'', JNum 1), (''name'', JStr (lit ''John Doe'')),
            (''email'', JStr (lit ''john@example.com''))],
      JObj [(''id'', JNum 2), (''name'', JStr (lit ''Jane Smith'')),
            (''email'', JStr (lit ''jane@example.com''))],
      JObj [(''id'', JNum 3), (''name'', JStr (lit ''Bob Johnson'')),
            (''email'', JStr (lit ''bob@example.com''))]]"

definition get_users :: "env \<Rightarrow> connection \<Rightarrow> store \<Rightarrow> outcome \<times> store \<times> event list" where
  "get_users e c st =
     (if connected c then
        (case UserModel_find e st of
           Inr found \<Rightarrow>
             (Response 200 (JArr (map (select_minus ''__v'' \<circ> lean_user) found)), st, [UserFind])
         | Inl err \<Rightarrow>
             (Response 500 (error_body ''Failed to fetch users''), st, [UserFind, ConsoleError]))
      else (Response 200 (JArr mock_users), st, []))"

text \<open>\<^verbatim>\<open>app.get('/api/tasks')\<close>\<close>

definition mock_tasks :: "json list" where
  "mock_tasks =
     [JObj [(''title'', JStr (lit ''Define TypeScript interfaces (Mock)'')),
            (''completed'', JBool True)],
      JObj [(''title'', JStr (lit ''Create React components (Mock)'')),
            (''completed'', JBool False)]]"

definition get_tasks :: "env \<Rightarrow> connection \<Rightarrow> store \<Rightarrow> outcome \<times> store \<times> event list" where
  "get_tasks e c st =
     (if connected c then
        (case TaskModel_find_sort e st of
           Inr found \<Rightarrow> (Response 200 (JArr (map lean_task found)), st, [TaskFind])
         | Inl err \<Rightarrow>
             (Response 500 (error_body ''Failed to fetch tasks''), st, [TaskFind, ConsoleError]))
      else (Response 200 (JArr mock_tasks), st, []))"

text \<open>
  \<^verbatim>\<open>!title || !title.trim()\<close>: the right operand is evaluated, and may throw, only when
  the title is truthy.
\<close>

definition title_missing :: "json \<Rightarrow> js_error + bool" where
  "title_missing title =
     (if js_not title then Inr True
      else (case call_trim title of Inl err \<Rightarrow> Inl err | Inr t \<Rightarrow> Inr (js_not t)))"

text \<open>
  \<^verbatim>\<open>app.post('/api/tasks')\<close>. The destructuring and the check of the title stand before
  the \<^verbatim>\<open>try\<close>: what they throw is not answered with a 500.
\<close>

definition post_tasks ::
  "env \<Rightarrow> connection \<Rightarrow> json \<Rightarrow> store \<Rightarrow> outcome \<times> store \<times> event list" where
  "post_tasks e c body st =
     (case destructure body ''title'' of
        Inl err \<Rightarrow> (Unhandled err, st, [])
      | Inr title \<Rightarrow>
          (case title_missing title of
             Inl err \<Rightarrow> (Unhandled err, st, [])
           | Inr True \<Rightarrow> (Response 400 (error_body ''Title required''), st, [])
           | Inr False \<Rightarrow>
               if connected c then
                 (case TaskModel_create e title False st of
                    Inr (created, st') \<Rightarrow> (Response 201 (toJSON_task created), st', [TaskCreate])
                  | Inl err \<Rightarrow>
                      (Response 500 (error_body ''Failed to create task''), st,
                       [TaskCreate, ConsoleError]))
               else
                 (Response 201 (JObj [(''title'', title), (''completed'', JBool False)]), st, [])))"

text \<open>\<^verbatim>\<open>app.post('/api/users')\<close>\<close>

definition post_users ::
  "env \<Rightarrow> connection \<Rightarrow> json \<Rightarrow> store \<Rightarrow> outcome \<times> store \<times> event list" where
  "post_users e c body st =
     (case destructure body ''name'' of
        Inl err \<Rightarrow> (Unhandled err, st, [])
      | Inr name \<Rightarrow>
          (case destructure body ''email'' of
             Inl err \<Rightarrow> (Unhandled err, st, [])
           | Inr email \<Rightarrow>
               if js_not name \<or> js_not email then
                 (Response 400 (error_body ''Name and email are required''), st, [])
               else if connected c then
                 (case UserModel_findOne e email st of
                    Inl err \<Rightarrow>
                      (Response 500 (error_body ''Failed to create user''), st,
                       [UserFindOne, ConsoleError])
                  | Inr (Some existing) \<Rightarrow>
                      (Response 409 (error_body ''User already exists''), st, [UserFindOne])
                  | Inr None \<Rightarrow>
                      (case UserModel_create e name email st of
                         Inl err \<Rightarrow>
                           (Response 500 (error_body ''Failed to create user''), st,
                            [UserFindOne, UserCreate, ConsoleError])
                       | Inr (created, st') \<Rightarrow>
                           (Response 201
                              (JObj [(''id'', JStr (u_id created)),
                                     (''name'', JStr (u_name created)),
                                     (''email'', JStr (u_email created)),
                                     (''createdAt'', JDate (u_createdAt created))]),
                            st', [UserFindOne, UserCreate])))
               else
                 (Response 201
                    (JObj [(''id'', JNum (now e)), (''name'', name), (''email'', email),
                           (''createdAt'', JDate (now_again e))]),
                  st, [])))"

section \<open>Sample inputs\<close>

text \<open>Concrete environments, connections, stores and drivers on which the theorems are run.\<close>

definition sample_env :: env where
  "sample_env = \<lparr>now = 5, now_again = 6, fresh_id = lit ''a1'', read_fails = False,
                  write_fails = False\<rparr>"

definition live_connection :: connection where
  "live_connection = \<lparr>readyState = 1, host = Some (lit ''localhost''), port = Some 27017\<rparr>"

definition empty_store :: store where
  "empty_store = \<lparr>tasks = [], users = []\<rparr>"

definition sample_store :: store where
  "sample_store =
     \<lparr>tasks = [\<lparr>t_id = lit ''a0'', t_title = lit ''old'', t_completed = False,
                 t_createdAt = 3, t_updatedAt = 3, t_v = 0\<rparr>],
      users = [\<lparr>u_id = lit ''b0'', u_name = lit ''Ann'', u_email = lit ''ann@x.io'',
                 u_createdAt = 2, u_v = 0\<rparr>]\<rparr>"

definition unreachable :: "jsstring \<Rightarrow> js_error + jsstring \<times> int" where
  "unreachable uri = Inl MongoError"

section \<open>Basic facts\<close>

lemma js_not_iff [simp]: "js_not v \<longleftrightarrow> \<not> truthy v"
  by (simp add: js_not_def)

lemma lit_simps [simp]: "lit [] = []" "lit (x # xs) = of_char x # lit xs"
  by (simp_all add: lit_def)

lemma connected_iff: "connected c \<longleftrightarrow> readyState c = 1"
  by (simp add: connected_def getDBState_def stateMap_def)

lemma state_disconnected:
  "readyState c = 0 \<Longrightarrow> jget (getDBState c) ''state'' = JStr (lit ''disconnected'')"
  by (simp add: getDBState_def stateMap_def)

lemma trim_all_ws:
  assumes "\<forall>ch\<in>set s. is_ws ch"
  shows "trim s = []"
proof -
  have d: "dropWhile is_ws s = []"
    using assms by simp
  show ?thesis
    unfolding trim_def d by simp
qed

lemma title_missing_blank: "\<forall>ch\<in>set s. is_ws ch \<Longrightarrow> title_missing (JStr s) = Inr True"
  by (simp add: title_missing_def trim_all_ws)

lemma title_missing_ok: "trim s \<noteq> [] \<Longrightarrow> title_missing (JStr s) = Inr False"
  by (auto simp: title_missing_def trim_def)

lemma TaskModel_create_completed:
  "TaskModel_create e title b st = Inr (d, st') \<Longrightarrow> t_completed d = b"
  by (cases title) (auto simp: TaskModel_create_def Let_def split: if_splits)

text \<open>A key below all the others goes to the front of the sorted list.\<close>

lemma foldr_insort_front:
  fixes f :: "'a \<Rightarrow> int"
  shows "\<forall>x\<in>set xs. f d < f x \<Longrightarrow>
         foldr (insort_key f) xs (d # ys) = d # foldr (insort_key f) xs ys"
  by (induction xs) (auto simp: not_le)

lemma sort_key_snoc_least:
  fixes f :: "'a \<Rightarrow> int"
  assumes "\<forall>x\<in>set xs. f d < f x"
  shows "sort_key f (xs @ [d]) = d # sort_key f xs"
  using foldr_insort_front [OF assms, of "[]"] by (simp add: sort_key_def)

section \<open>The task list in fallback mode\<close>

text \<open>
  C1. While the connection's state is not 'connected', the task list answers with the same
  two mock tasks, \<^verbatim>\<open>{title: "Define TypeScript interfaces (Mock)", completed: true}\<close> and
  \<^verbatim>\<open>{title: "Create React components (Mock)", completed: false}\<close>, whatever the store
  holds and whatever was created before: the answer after a task create is the answer
  before it.
\<close>

theorem list_tasks_fallback_fixed:
  assumes "\<not> connected c"
  shows "get_tasks e c st =
           (Response 200
              (JArr [JObj [(''title'', JStr (lit ''Define TypeScript interfaces (Mock)'')),
                           (''completed'', JBool True)],
                     JObj [(''title'', JStr (lit ''Create React components (Mock)'')),
                           (''completed'', JBool False)]]),
            st, [])
         \<and> fst (get_tasks e c (fst (snd (post_tasks e' c body st)))) = fst (get_tasks e c st)"
  using assms by (simp add: get_tasks_def mock_tasks_def)

theorem list_tasks_fallback_fixed_witness:
  "\<not> connected initial_connection \<and>
   get_tasks sample_env initial_connection sample_store =
     (Response 200
        (JArr [JObj [(''title'', JStr (lit ''Define TypeScript interfaces (Mock)'')),
                     (''completed'', JBool True)],
               JObj [(''title'', JStr (lit ''Create React components (Mock)'')),
                     (''completed'', JBool False)]]),
      sample_store, [])"
proof -
  have h: "\<not> connected initial_connection"
    by (simp add: connected_iff initial_connection_def)
  show ?thesis
    using h list_tasks_fallback_fixed [OF h, of sample_env sample_store] by simp
qed

section \<open>Creating a task\<close>

text \<open>
  C4. A task create whose title is absent, empty or made of whitespace only is answered
  with 400 \<^verbatim>\<open>{error: "Title required"}\<close>, whatever the connection's state, the store and
  the environment; no store operation is made and the store is unchanged, so a later task
  list answers as it would have before.
\<close>

theorem create_task_blank_title_rejected:
  assumes "map_of kvs ''title'' = None
           \<or> (\<exists>s. map_of kvs ''title'' = Some (JStr s) \<and> (\<forall>ch\<in>set s. is_ws ch))"
  shows "post_tasks e c (JObj kvs) st =
           (Response 400 (JObj [(''error'', JStr (lit ''Title required''))]), st, [])
         \<and> get_tasks e' c' (fst (snd (post_tasks e c (JObj kvs) st))) = get_tasks e' c' st"
proof -
  have "title_missing (jget (JObj kvs) ''title'') = Inr True"
    using assms by (auto simp: title_missing_blank) (simp add: title_missing_def)
  then show ?thesis
    by (simp add: post_tasks_def error_body_def del: lit_simps jget.simps)
qed

theorem create_task_blank_title_rejected_witness:
  "post_tasks sample_env live_connection (JObj [(''title'', JStr (lit ''  ''))]) sample_store =
     (Response 400 (JObj [(''error'', JStr (lit ''Title required''))]), sample_store, [])"
proof -
  have h: "map_of [(''title'', JStr (lit ''  ''))] ''title'' = None
           \<or> (\<exists>s. map_of [(''title'', JStr (lit ''  ''))] ''title'' = Some (JStr s)
                 \<and> (\<forall>ch\<in>set s. is_ws ch))"
    by (simp add: is_ws_def)
  show ?thesis
    using create_task_blank_title_rejected [OF h, of sample_env live_connection sample_store]
    by simp
qed

text \<open>
  The title is stored trimmed: a task created from the title \<^verbatim>\<open>" x "\<close> is listed with the
  title \<^verbatim>\<open>"x"\<close>.
\<close>

theorem create_then_list_counterexample:
  "post_tasks sample_env live_connection (JObj [(''title'', JStr (lit '' x ''))]) empty_store =
     (Response 201
        (JObj [(''title'', JStr (lit ''x'')), (''completed'', JBool False),
               (''_id'', JStr (lit ''a1'')), (''createdAt'', JDate 5),
               (''updatedAt'', JDate 5), (''__v'', JNum 0)]),
      \<lparr>tasks = [\<lparr>t_id = lit ''a1'', t_title = lit ''x'', t_completed = False,
                  t_createdAt = 5, t_updatedAt = 5, t_v = 0\<rparr>], users = []\<rparr>,
      [TaskCreate])
   \<and> fst (get_tasks sample_env live_connection
            \<lparr>tasks = [\<lparr>t_id = lit ''a1'', t_title = lit ''x'', t_completed = False,
                        t_createdAt = 5, t_updatedAt = 5, t_v = 0\<rparr>], users = []\<rparr>) =
     Response 200
        (JArr [JObj [(''_id'', JStr (lit ''a1'')), (''title'', JStr (lit ''x'')),
                     (''completed'', JBool False), (''createdAt'', JDate 5),
                     (''updatedAt'', JDate 5), (''__v'', JNum 0)]])
   \<and> JStr (lit ''x'') \<noteq> JStr (lit '' x '')"
  by (simp add: post_tasks_def get_tasks_def title_missing_def trim_def is_ws_def
      connected_iff live_connection_def sample_env_def empty_store_def TaskModel_create_def
      TaskModel_find_sort_def toJSON_task_def lean_task_def Let_def)

text \<open>
  C2, amended. While connected, a task create whose title is a string with non-blank
  trimmed content, made when the store accepts the write and at a clock reading later than
  the \<^verbatim>\<open>createdAt\<close> of every stored task, stores the task under the trimmed title; a task
  list that follows (its read succeeding) returns that task first, ahead of the earlier
  tasks in descending order of creation time, and its title is the trimmed title.
\<close>

theorem create_then_list_newest_first:
  assumes "connected c" and "\<not> write_fails e" and "\<not> read_fails e'"
    and "map_of kvs ''title'' = Some (JStr s)" and "trim s \<noteq> []"
    and "\<forall>d\<in>set (tasks st). t_createdAt d < now e"
  defines "created \<equiv> \<lparr>t_id = fresh_id e, t_title = trim s, t_completed = False,
                       t_createdAt = now e, t_updatedAt = now e, t_v = 0\<rparr>"
  shows "post_tasks e c (JObj kvs) st =
           (Response 201 (toJSON_task created), st\<lparr>tasks := tasks st @ [created]\<rparr>, [TaskCreate])
         \<and> get_tasks e' c (st\<lparr>tasks := tasks st @ [created]\<rparr>) =
           (Response 200
              (JArr (lean_task created
                     # map lean_task (sort_key (\<lambda>d. - t_createdAt d) (tasks st)))),
            st\<lparr>tasks := tasks st @ [created]\<rparr>, [TaskFind])
         \<and> jget (lean_task created) ''title'' = JStr (trim s)"
proof -
  have m: "title_missing (JStr s) = Inr False"
    using assms(5) by (rule title_missing_ok)
  have post: "post_tasks e c (JObj kvs) st =
           (Response 201 (toJSON_task created), st\<lparr>tasks := tasks st @ [created]\<rparr>, [TaskCreate])"
    using assms(1,2,4,5) m by (simp add: post_tasks_def TaskModel_create_def created_def Let_def)
  have "\<forall>x\<in>set (tasks st). - t_createdAt created < - t_createdAt x"
    using assms(6) by (simp add: created_def)
  then have srt: "sort_key (\<lambda>d. - t_createdAt d) (tasks st @ [created])
               = created # sort_key (\<lambda>d. - t_createdAt d) (tasks st)"
    by (rule sort_key_snoc_least)
  have lst: "get_tasks e' c (st\<lparr>tasks := tasks st @ [created]\<rparr>) =
           (Response 200
              (JArr (lean_task created
                     # map lean_task (sort_key (\<lambda>d. - t_createdAt d) (tasks st)))),
            st\<lparr>tasks := tasks st @ [created]\<rparr>, [TaskFind])"
    using assms(1,3) srt by (simp add: get_tasks_def TaskModel_find_sort_def)
  have "jget (lean_task created) ''title'' = JStr (trim s)"
    by (simp add: lean_task_def created_def)
  with post lst show ?thesis by simp
qed

theorem create_then_list_newest_first_witness:
  "get_tasks sample_env live_connection
     (sample_store\<lparr>tasks := tasks sample_store @
        [\<lparr>t_id = lit ''a1'', t_title = lit ''x'', t_completed = False,
          t_createdAt = 5, t_updatedAt = 5, t_v = 0\<rparr>]\<rparr>) =
     (Response 200
        (JArr [JObj [(''_id'', JStr (lit ''a1'')), (''title'', JStr (lit ''x'')),
                     (''completed'', JBool False), (''createdAt'', JDate 5),
                     (''updatedAt'', JDate 5), (''__v'', JNum 0)],
               JObj [(''_id'', JStr (lit ''a0'')), (''title'', JStr (lit ''old'')),
                     (''completed'', JBool False), (''createdAt'', JDate 3),
                     (''updatedAt'', JDate 3), (''__v'', JNum 0)]]),
      sample_store\<lparr>tasks := tasks sample_store @
        [\<lparr>t_id = lit ''a1'', t_title = lit ''x'', t_completed = False,
          t_createdAt = 5, t_updatedAt = 5, t_v = 0\<rparr>]\<rparr>,
      [TaskFind])"
proof -
  have h1: "connected live_connection"
    by (simp add: connected_iff live_connection_def)
  have h2: "\<not> write_fails sample_env"
    by (simp add: sample_env_def)
  have h3: "\<not> read_fails sample_env"
    by (simp add: sample_env_def)
  have h4: "map_of [(''title'', JStr (lit '' x ''))] ''title'' = Some (JStr (lit '' x ''))"
    by simp
  have h5: "trim (lit '' x '') \<noteq> []"
    by (simp add: trim_def is_ws_def)
  have h6: "\<forall>d\<in>set (tasks sample_store). t_createdAt d < now sample_env"
    by (simp add: sample_store_def sample_env_def)
  show ?thesis
    using create_then_list_newest_first [OF h1 h2 h3 h4 h5 h6]
    by (simp add: trim_def is_ws_def lean_task_def sample_env_def sample_store_def)
qed

text \<open>
  C10. The task of every successful task create (201) has \<^verbatim>\<open>completed\<close> false, whatever
  the request body holds, a \<^verbatim>\<open>completed\<close> member of its own included, and whether the
  connection is connected or not.
\<close>

theorem created_task_not_completed:
  assumes "post_tasks e c body st = (Response 201 b, st', ev)"
  shows "jget b ''completed'' = JBool False"
proof (cases "connected c")
  case True
  with assms obtain title d where "TaskModel_create e title False st = Inr (d, st')"
    and b: "b = toJSON_task d"
    by (auto simp: post_tasks_def error_body_def split: sum.splits bool.splits)
  then have "t_completed d = False"
    using TaskModel_create_completed by blast
  with b show ?thesis
    by (simp add: toJSON_task_def)
next
  case False
  with assms show ?thesis
    by (auto simp: post_tasks_def error_body_def split: sum.splits bool.splits)
qed

theorem created_task_not_completed_witness:
  "post_tasks sample_env live_connection
     (JObj [(''title'', JStr (lit ''x'')), (''completed'', JBool True)]) empty_store =
     (Response 201
        (JObj [(''title'', JStr (lit ''x'')), (''completed'', JBool False),
               (''_id'', JStr (lit ''a1'')), (''createdAt'', JDate 5),
               (''updatedAt'', JDate 5), (''__v'', JNum 0)]),
      \<lparr>tasks = [\<lparr>t_id = lit ''a1'', t_title = lit ''x'', t_completed = False,
                  t_createdAt = 5, t_updatedAt = 5, t_v = 0\<rparr>], users = []\<rparr>,
      [TaskCreate])
   \<and> jget (JObj [(''title'', JStr (lit ''x'')), (''completed'', JBool False),
               (''_id'', JStr (lit ''a1'')), (''createdAt'', JDate 5),
               (''updatedAt'', JDate 5), (''__v'', JNum 0)]) ''completed'' = JBool False"
proof -
  have h: "post_tasks sample_env live_connection
     (JObj [(''title'', JStr (lit ''x'')), (''completed'', JBool True)]) empty_store =
     (Response 201
        (JObj [(''title'', JStr (lit ''x'')), (''completed'', JBool False),
               (''_id'', JStr (lit ''a1'')), (''createdAt'', JDate 5),
               (''updatedAt'', JDate 5), (''__v'', JNum 0)]),
      \<lparr>tasks = [\<lparr>t_id = lit ''a1'', t_title = lit ''x'', t_completed = False,
                  t_createdAt = 5, t_updatedAt = 5, t_v = 0\<rparr>], users = []\<rparr>,
      [TaskCreate])"
    by (simp add: post_tasks_def title_missing_def trim_def is_ws_def connected_iff
        live_connection_def sample_env_def empty_store_def TaskModel_create_def
        toJSON_task_def Let_def)
  show ?thesis
    using h created_task_not_completed [OF h] by simp
qed

section \<open>Creating a user\<close>

lemma post_users_existing:
  assumes "map_of kvs ''name'' = Some n" and "truthy n"
    and "map_of kvs ''email'' = Some (JStr a)" and "a \<noteq> []"
    and "connected c" and "\<not> read_fails e"
    and "find (\<lambda>u. u_email u = a) (users st) = Some u"
  shows "post_users e c (JObj kvs) st =
           (Response 409 (JObj [(''error'', JStr (lit ''User already exists''))]), st,
            [UserFindOne])"
proof -
  have "UserModel_findOne e (JStr a) st = Inr (Some u)"
    using assms(6,7) by (simp add: UserModel_findOne_def)
  then show ?thesis
    using assms(1-5) by (simp add: post_users_def error_body_def del: lit_simps)
qed

lemma post_users_new:
  assumes "map_of kvs ''name'' = Some (JStr nm)" and "nm \<noteq> []"
    and "map_of kvs ''email'' = Some (JStr a)" and "a \<noteq> []"
    and "connected c" and "\<not> read_fails e" and "\<not> write_fails e"
    and "find (\<lambda>u. u_email u = a) (users st) = None"
  shows "post_users e c (JObj kvs) st =
           (Response 201
              (JObj [(''id'', JStr (fresh_id e)), (''name'', JStr nm), (''email'', JStr a),
                     (''createdAt'', JDate (now e))]),
            st\<lparr>users := users st @ [\<lparr>u_id = fresh_id e, u_name = nm, u_email = a,
                                      u_createdAt = now e, u_v = 0\<rparr>]\<rparr>,
            [UserFindOne, UserCreate])"
  using assms
  by (simp add: post_users_def UserModel_findOne_def UserModel_create_def Let_def
      del: lit_simps)

lemma post_users_fallback:
  assumes "map_of kvs ''name'' = Some n" and "truthy n"
    and "map_of kvs ''email'' = Some m" and "truthy m"
    and "\<not> connected c"
  shows "post_users e c (JObj kvs) st =
           (Response 201
              (JObj [(''id'', JNum (now e)), (''name'', n), (''email'', m),
                     (''createdAt'', JDate (now_again e))]), st, [])"
  using assms by (simp add: post_users_def del: lit_simps)

text \<open>
  A user create with an absent or falsy name or email is answered with 400 before any
  store operation, whatever the connection's state.
\<close>

lemma create_user_missing_field_rejected:
  assumes "\<not> truthy (jget (JObj kvs) ''name'') \<or> \<not> truthy (jget (JObj kvs) ''email'')"
  shows "post_users e c (JObj kvs) st =
           (Response 400 (JObj [(''error'', JStr (lit ''Name and email are required''))]), st, [])"
  using assms by (auto simp: post_users_def error_body_def simp del: lit_simps jget.simps)

text \<open>
  C3. For a body with a truthy name and a non-empty email: while connected, a user create
  whose email is already in the store (the lookup succeeding) is answered with 409
  \<^verbatim>\<open>{error: "User already exists"}\<close> and leaves the store as it was, and so is a second
  create of the same body after a first one (store operations succeeding); while not
  connected, the create is answered with 201 and the echoed user, and a second create of
  the same body is answered with 201 again.
\<close>

theorem create_user_duplicate_email:
  assumes "map_of kvs ''name'' = Some n" and "truthy n"
    and "map_of kvs ''email'' = Some (JStr a)" and "a \<noteq> []"
  shows "(connected c \<and> \<not> read_fails e \<and> (\<exists>u\<in>set (users st). u_email u = a) \<longrightarrow>
            post_users e c (JObj kvs) st =
              (Response 409 (JObj [(''error'', JStr (lit ''User already exists''))]), st,
               [UserFindOne]))
         \<and> (connected c \<and> \<not> read_fails e \<and> \<not> write_fails e \<and> \<not> read_fails e2
              \<and> (\<exists>nm. n = JStr nm) \<longrightarrow>
            post_users e2 c (JObj kvs) (fst (snd (post_users e c (JObj kvs) st))) =
              (Response 409 (JObj [(''error'', JStr (lit ''User already exists''))]),
               fst (snd (post_users e c (JObj kvs) st)), [UserFindOne]))
         \<and> (\<not> connected c \<longrightarrow>
            post_users e c (JObj kvs) st =
              (Response 201
                 (JObj [(''id'', JNum (now e)), (''name'', n), (''email'', JStr a),
                        (''createdAt'', JDate (now_again e))]), st, [])
            \<and> post_users e2 c (JObj kvs) (fst (snd (post_users e c (JObj kvs) st))) =
              (Response 201
                 (JObj [(''id'', JNum (now e2)), (''name'', n), (''email'', JStr a),
                        (''createdAt'', JDate (now_again e2))]), st, []))"
    (is "?dup \<and> ?second \<and> ?fallback")
proof -
  have ta: "truthy (JStr a)"
    using assms(4) by simp
  have ?dup
  proof
    assume "connected c \<and> \<not> read_fails e \<and> (\<exists>u\<in>set (users st). u_email u = a)"
    then have c: "connected c" and r: "\<not> read_fails e"
      and "find (\<lambda>u. u_email u = a) (users st) \<noteq> None"
      by (auto simp: find_None_iff)
    then obtain u where "find (\<lambda>u. u_email u = a) (users st) = Some u"
      by blast
    then show "post_users e c (JObj kvs) st =
              (Response 409 (JObj [(''error'', JStr (lit ''User already exists''))]), st,
               [UserFindOne])"
      by (rule post_users_existing [OF assms c r])
  qed
  moreover have ?second
  proof
    assume "connected c \<and> \<not> read_fails e \<and> \<not> write_fails e \<and> \<not> read_fails e2
              \<and> (\<exists>nm. n = JStr nm)"
    then obtain nm where c: "connected c" and r: "\<not> read_fails e" and w: "\<not> write_fails e"
      and r2: "\<not> read_fails e2" and nm: "n = JStr nm"
      by auto
    let ?st = "fst (snd (post_users e c (JObj kvs) st))"
    have "\<exists>u. find (\<lambda>u. u_email u = a) (users ?st) = Some u"
    proof (cases "find (\<lambda>u. u_email u = a) (users st)")
      case (Some u)
      then show ?thesis
        by (simp add: post_users_existing [OF assms c r Some] del: lit_simps)
    next
      case None
      have n1: "map_of kvs ''name'' = Some (JStr nm)" and n2: "nm \<noteq> []"
        using assms(1,2) nm by simp_all
      define d where "d = \<lparr>u_id = fresh_id e, u_name = nm, u_email = a,
                             u_createdAt = now e, u_v = 0\<rparr>"
      have "d \<in> set (users st @ [d])" and "u_email d = a"
        by (simp_all add: d_def)
      then have "\<exists>x. x \<in> set (users st @ [d]) \<and> u_email x = a"
        by (intro exI [of _ d] conjI)
      then have "find (\<lambda>u. u_email u = a) (users st @ [d]) \<noteq> None"
        by (simp only: find_None_iff not_not)
      then have "find (\<lambda>u. u_email u = a)
              (users st @ [\<lparr>u_id = fresh_id e, u_name = nm, u_email = a,
                             u_createdAt = now e, u_v = 0\<rparr>]) \<noteq> None"
        unfolding d_def .
      then show ?thesis
        by (simp add: post_users_new [OF n1 n2 assms(3,4) c r w None] del: lit_simps)
    qed
    then obtain u where "find (\<lambda>u. u_email u = a) (users ?st) = Some u" ..
    then show "post_users e2 c (JObj kvs) ?st =
              (Response 409 (JObj [(''error'', JStr (lit ''User already exists''))]), ?st,
               [UserFindOne])"
      by (rule post_users_existing [OF assms c r2])
  qed
  moreover have ?fallback
  proof
    assume n: "\<not> connected c"
    have 1: "post_users e c (JObj kvs) st =
              (Response 201
                 (JObj [(''id'', JNum (now e)), (''name'', n), (''email'', JStr a),
                        (''createdAt'', JDate (now_again e))]), st, [])"
      by (rule post_users_fallback [OF assms(1,2,3) ta n])
    have "post_users e2 c (JObj kvs) st =
              (Response 201
                 (JObj [(''id'', JNum (now e2)), (''name'', n), (''email'', JStr a),
                        (''createdAt'', JDate (now_again e2))]), st, [])"
      by (rule post_users_fallback [OF assms(1,2,3) ta n])
    with 1 show "post_users e c (JObj kvs) st =
              (Response 201
                 (JObj [(''id'', JNum (now e)), (''name'', n), (''email'', JStr a),
                        (''createdAt'', JDate (now_again e))]), st, [])
            \<and> post_users e2 c (JObj kvs) (fst (snd (post_users e c (JObj kvs) st))) =
              (Response 201
                 (JObj [(''id'', JNum (now e2)), (''name'', n), (''email'', JStr a),
                        (''createdAt'', JDate (now_again e2))]), st, [])"
      by (simp del: lit_simps)
  qed
  ultimately show ?thesis
    by (intro conjI)
qed

theorem create_user_duplicate_email_witness:
  "post_users sample_env live_connection
     (JObj [(''name'', JStr (lit ''Ann B'')), (''email'', JStr (lit ''ann@x.io''))]) sample_store =
     (Response 409 (JObj [(''error'', JStr (lit ''User already exists''))]), sample_store,
      [UserFindOne])
   \<and> post_users sample_env initial_connection
     (JObj [(''name'', JStr (lit ''Ann B'')), (''email'', JStr (lit ''ann@x.io''))]) sample_store =
     (Response 201
        (JObj [(''id'', JNum 5), (''name'', JStr (lit ''Ann B'')),
               (''email'', JStr (lit ''ann@x.io'')), (''createdAt'', JDate 6)]),
      sample_store, [])"
proof -
  have h1: "map_of [(''name'', JStr (lit ''Ann B'')), (''email'', JStr (lit ''ann@x.io''))] ''name''
            = Some (JStr (lit ''Ann B''))"
    by simp
  have h2: "truthy (JStr (lit ''Ann B''))"
    by simp
  have h3: "map_of [(''name'', JStr (lit ''Ann B'')), (''email'', JStr (lit ''ann@x.io''))] ''email''
            = Some (JStr (lit ''ann@x.io''))"
    by simp
  have h4: "lit ''ann@x.io'' \<noteq> []"
    by simp
  have c: "connected live_connection" "\<not> connected initial_connection"
    by (simp_all add: connected_iff live_connection_def initial_connection_def)
  have s: "\<not> read_fails sample_env" "\<exists>u\<in>set (users sample_store). u_email u = lit ''ann@x.io''"
    by (simp_all add: sample_env_def sample_store_def)
  have n: "now sample_env = 5" "now_again sample_env = 6"
    by (simp_all add: sample_env_def)
  show ?thesis
    using create_user_duplicate_email [OF h1 h2 h3 h4, of live_connection sample_env sample_store]
      create_user_duplicate_email [OF h1 h2 h3 h4, of initial_connection sample_env sample_store]
      c s
    by (simp add: n del: lit_simps)
qed

text \<open>
  C5. A user create validates that name and email are present and not blank, whitespace-only
  values included. The handler at a whitespace-only name, not connected: it answers 201
  and echoes the name, though the name trims to the empty string.
\<close>

theorem create_user_whitespace_name_accepted:
  "post_users sample_env initial_connection
     (JObj [(''name'', JStr (lit '' '')), (''email'', JStr (lit ''a@b.c''))]) empty_store =
     (Response 201
        (JObj [(''id'', JNum 5), (''name'', JStr (lit '' '')), (''email'', JStr (lit ''a@b.c'')),
               (''createdAt'', JDate 6)]),
      empty_store, [])
   \<and> trim (lit '' '') = []"
  by (simp add: post_users_def connected_iff initial_connection_def sample_env_def trim_def
      is_ws_def)

section \<open>Creating in fallback mode\<close>

lemma post_tasks_fallback:
  assumes "map_of kvs ''title'' = Some (JStr s)" and "trim s \<noteq> []" and "\<not> connected c"
  shows "post_tasks e c (JObj kvs) st =
           (Response 201 (JObj [(''title'', JStr s), (''completed'', JBool False)]), st, [])"
  using assms title_missing_ok [OF assms(2)] by (simp add: post_tasks_def del: lit_simps)

text \<open>
  A task created while not connected is answered with \<^verbatim>\<open>{title, completed: false}\<close> and
  nothing more: no id and no timestamp. Created under the title of the second mock task,
  the returned value is an element of the list that follows.
\<close>

theorem fallback_create_counterexample:
  "post_tasks sample_env initial_connection
     (JObj [(''title'', JStr (lit ''Create React components (Mock)''))]) sample_store =
     (Response 201
        (JObj [(''title'', JStr (lit ''Create React components (Mock)'')),
               (''completed'', JBool False)]),
      sample_store, [])
   \<and> jget (JObj [(''title'', JStr (lit ''Create React components (Mock)'')),
                 (''completed'', JBool False)]) ''id'' = JUndefined
   \<and> jget (JObj [(''title'', JStr (lit ''Create React components (Mock)'')),
                 (''completed'', JBool False)]) ''createdAt'' = JUndefined
   \<and> fst (get_tasks sample_env initial_connection sample_store) = Response 200 (JArr mock_tasks)
   \<and> JObj [(''title'', JStr (lit ''Create React components (Mock)'')),
            (''completed'', JBool False)] \<in> set mock_tasks"
  by (simp add: post_tasks_def get_tasks_def title_missing_def trim_def is_ws_def
      connected_iff initial_connection_def mock_tasks_def)

text \<open>
  C6, amended. While not connected, a valid create persists nothing and makes no store
  operation. A task create returns \<^verbatim>\<open>{title, completed: false}\<close>, the title as sent, with
  no id and no timestamp; a user create returns the name and email as sent with
  \<^verbatim>\<open>id\<close> from the clock and \<^verbatim>\<open>createdAt\<close> from a second reading of it. A list that follows,
  still not connected, is the fixed mock sequence, as before the create; the returned user
  is never one of the mock users.
\<close>

theorem fallback_create_echo_not_stored:
  assumes "\<not> connected c"
  shows "(map_of kvs ''title'' = Some (JStr s) \<and> trim s \<noteq> [] \<longrightarrow>
            post_tasks e c (JObj kvs) st =
              (Response 201 (JObj [(''title'', JStr s), (''completed'', JBool False)]), st, [])
            \<and> get_tasks e' c (fst (snd (post_tasks e c (JObj kvs) st))) =
              (Response 200 (JArr mock_tasks), st, []))
         \<and> (map_of kvs ''name'' = Some n \<and> truthy n \<and> map_of kvs ''email'' = Some m \<and> truthy m \<longrightarrow>
            post_users e c (JObj kvs) st =
              (Response 201
                 (JObj [(''id'', JNum (now e)), (''name'', n), (''email'', m),
                        (''createdAt'', JDate (now_again e))]), st, [])
            \<and> get_users e' c (fst (snd (post_users e c (JObj kvs) st))) =
              (Response 200 (JArr mock_users), st, [])
            \<and> JObj [(''id'', JNum (now e)), (''name'', n), (''email'', m),
                     (''createdAt'', JDate (now_again e))] \<notin> set mock_users)"
    (is "?task \<and> ?user")
proof -
  have lt: "get_tasks e' c st = (Response 200 (JArr mock_tasks), st, [])"
    using assms by (simp add: get_tasks_def)
  have lu: "get_users e' c st = (Response 200 (JArr mock_users), st, [])"
    using assms by (simp add: get_users_def)
  have ?task
  proof
    assume "map_of kvs ''title'' = Some (JStr s) \<and> trim s \<noteq> []"
    then have "post_tasks e c (JObj kvs) st =
              (Response 201 (JObj [(''title'', JStr s), (''completed'', JBool False)]), st, [])"
      using assms by (simp add: post_tasks_fallback del: lit_simps)
    then show "post_tasks e c (JObj kvs) st =
              (Response 201 (JObj [(''title'', JStr s), (''completed'', JBool False)]), st, [])
            \<and> get_tasks e' c (fst (snd (post_tasks e c (JObj kvs) st))) =
              (Response 200 (JArr mock_tasks), st, [])"
      using lt by simp
  qed
  moreover have ?user
  proof
    assume "map_of kvs ''name'' = Some n \<and> truthy n \<and> map_of kvs ''email'' = Some m \<and> truthy m"
    then have "post_users e c (JObj kvs) st =
              (Response 201
                 (JObj [(''id'', JNum (now e)), (''name'', n), (''email'', m),
                        (''createdAt'', JDate (now_again e))]), st, [])"
      using assms by (simp add: post_users_fallback del: lit_simps)
    moreover have "JObj [(''id'', JNum (now e)), (''name'', n), (''email'', m),
                     (''createdAt'', JDate (now_again e))] \<notin> set mock_users"
      by (simp add: mock_users_def del: lit_simps)
    ultimately show "post_users e c (JObj kvs) st =
              (Response 201
                 (JObj [(''id'', JNum (now e)), (''name'', n), (''email'', m),
                        (''createdAt'', JDate (now_again e))]), st, [])
            \<and> get_users e' c (fst (snd (post_users e c (JObj kvs) st))) =
              (Response 200 (JArr mock_users), st, [])
            \<and> JObj [(''id'', JNum (now e)), (''name'', n), (''email'', m),
                     (''createdAt'', JDate (now_again e))] \<notin> set mock_users"
      using lu by simp
  qed
  ultimately show ?thesis
    by (intro conjI)
qed

theorem fallback_create_echo_not_stored_witness:
  "post_tasks sample_env initial_connection (JObj [(''title'', JStr (lit '' x ''))]) sample_store =
     (Response 201 (JObj [(''title'', JStr (lit '' x '')), (''completed'', JBool False)]),
      sample_store, [])
   \<and> post_users sample_env initial_connection
     (JObj [(''name'', JStr (lit ''Ann B'')), (''email'', JStr (lit ''ann@x.io''))]) sample_store =
     (Response 201
        (JObj [(''id'', JNum 5), (''name'', JStr (lit ''Ann B'')),
               (''email'', JStr (lit ''ann@x.io'')), (''createdAt'', JDate 6)]),
      sample_store, [])"
proof -
  have h: "\<not> connected initial_connection"
    by (simp add: connected_iff initial_connection_def)
  have t: "map_of [(''title'', JStr (lit '' x ''))] ''title'' = Some (JStr (lit '' x ''))
           \<and> trim (lit '' x '') \<noteq> []"
    by (simp add: trim_def is_ws_def)
  have u: "map_of [(''name'', JStr (lit ''Ann B'')), (''email'', JStr (lit ''ann@x.io''))] ''name''
             = Some (JStr (lit ''Ann B'')) \<and> truthy (JStr (lit ''Ann B''))
           \<and> map_of [(''name'', JStr (lit ''Ann B'')), (''email'', JStr (lit ''ann@x.io''))] ''email''
             = Some (JStr (lit ''ann@x.io'')) \<and> truthy (JStr (lit ''ann@x.io''))"
    by simp
  have n: "now sample_env = 5" "now_again sample_env = 6"
    by (simp_all add: sample_env_def)
  show ?thesis
    using fallback_create_echo_not_stored [OF h, THEN conjunct1, rule_format, OF t]
      fallback_create_echo_not_stored [OF h, THEN conjunct2, rule_format, OF u,
        of sample_env sample_store]
    by (simp add: n del: lit_simps)
qed

section \<open>Listing while connected\<close>

text \<open>
  While connected and with the read succeeding, the user list is the collection as it
  stands, each user without \<^verbatim>\<open>__v\<close>; the task list is the collection in descending order
  of \<^verbatim>\<open>createdAt\<close>.
\<close>

lemma list_users_connected:
  assumes "connected c" and "\<not> read_fails e"
  shows "get_users e c st =
           (Response 200 (JArr (map (select_minus ''__v'' \<circ> lean_user) (users st))), st, [UserFind])"
    and "\<forall>x\<in>set (map (select_minus ''__v'' \<circ> lean_user) (users st)). jget x ''__v'' = JUndefined"
  using assms by (simp_all add: get_users_def UserModel_find_def lean_user_def)

lemma list_tasks_connected:
  assumes "connected c" and "\<not> read_fails e"
  shows "get_tasks e c st =
           (Response 200 (JArr (map lean_task (sort_key (\<lambda>d. - t_createdAt d) (tasks st)))), st,
            [TaskFind])"
    and "sorted (rev (map t_createdAt (sort_key (\<lambda>d. - t_createdAt d) (tasks st))))"
    and "set (sort_key (\<lambda>d. - t_createdAt d) (tasks st)) = set (tasks st)"
    and "length (sort_key (\<lambda>d. - t_createdAt d) (tasks st)) = length (tasks st)"
proof -
  show "get_tasks e c st =
           (Response 200 (JArr (map lean_task (sort_key (\<lambda>d. - t_createdAt d) (tasks st)))), st,
            [TaskFind])"
    using assms by (simp add: get_tasks_def TaskModel_find_sort_def)
  have "sorted (map (\<lambda>d. - t_createdAt d) (sort_key (\<lambda>d. - t_createdAt d) (tasks st)))"
    by (rule sorted_sort_key)
  then have "sorted (map uminus (map t_createdAt (sort_key (\<lambda>d. - t_createdAt d) (tasks st))))"
    by (simp add: comp_def)
  then show "sorted (rev (map t_createdAt (sort_key (\<lambda>d. - t_createdAt d) (tasks st))))"
    by (simp add: sorted_wrt_rev sorted_map sorted_wrt_map)
  show "set (sort_key (\<lambda>d. - t_createdAt d) (tasks st)) = set (tasks st)"
    and "length (sort_key (\<lambda>d. - t_createdAt d) (tasks st)) = length (tasks st)"
    by simp_all
qed

text \<open>
  C8. While connected, both lists return the stored sequence with the versioning field
  \<^verbatim>\<open>__v\<close> stripped from every element. The handlers on a store of one task and one user:
  the user comes without \<^verbatim>\<open>__v\<close>, the task with \<^verbatim>\<open>__v: 0\<close>.
\<close>

theorem list_tasks_keeps_version_key:
  "get_tasks sample_env live_connection sample_store =
     (Response 200
        (JArr [JObj [(''_id'', JStr (lit ''a0'')), (''title'', JStr (lit ''old'')),
                     (''completed'', JBool False), (''createdAt'', JDate 3),
                     (''updatedAt'', JDate 3), (''__v'', JNum 0)]]),
      sample_store, [TaskFind])
   \<and> get_users sample_env live_connection sample_store =
     (Response 200
        (JArr [JObj [(''_id'', JStr (lit ''b0'')), (''name'', JStr (lit ''Ann'')),
                     (''email'', JStr (lit ''ann@x.io'')), (''createdAt'', JDate 2)]]),
      sample_store, [UserFind])"
  by (simp add: get_tasks_def get_users_def connected_iff live_connection_def sample_env_def
      sample_store_def TaskModel_find_sort_def UserModel_find_def lean_task_def lean_user_def)

section \<open>Connecting\<close>

lemma or_str_empty: "u \<in> {None, Some []} \<Longrightarrow> or_str u b = b"
  by auto

text \<open>
  C7. \<^verbatim>\<open>connectDB\<close> resolves on every input and never rejects. With no URI from the
  argument, \<^verbatim>\<open>MONGO_URI\<close> or \<^verbatim>\<open>DATABASE_URL\<close> (each absent or empty) it resolves with
  \<^verbatim>\<open>null\<close> after a warning, attempts no connection and leaves the connection as it was
  (disconnected, from the initial connection). When the attempt fails it resolves with
  \<^verbatim>\<open>null\<close>, the error is logged, and the connection's state is 'disconnected'.
\<close>

theorem connectDB_always_resolves:
  "fst (connectDB driver m d u c) \<in> {Resolved Mongoose, Resolved Null}
   \<and> (u \<in> {None, Some []} \<and> m \<in> {None, Some []} \<and> d \<in> {None, Some []} \<longrightarrow>
        connectDB driver m d u c = (Resolved Null, c, [ConsoleWarn])
        \<and> jget (getDBState (fst (snd (connectDB driver m d u initial_connection)))) ''state''
            = JStr (lit ''disconnected''))
   \<and> (or_str u (MONGO_URI m d) \<noteq> [] \<and> driver (or_str u (MONGO_URI m d)) = Inl err \<longrightarrow>
        connectDB driver m d u c =
          (Resolved Null, c\<lparr>readyState := 0\<rparr>,
           [MongooseConnect (or_str u (MONGO_URI m d)), ConsoleError])
        \<and> jget (getDBState (c\<lparr>readyState := 0\<rparr>)) ''state'' = JStr (lit ''disconnected''))"
    (is "?resolves \<and> ?no_uri \<and> ?failure")
proof -
  have ?resolves
    by (simp add: connectDB_def mongoose_connect_def Let_def split: sum.splits prod.splits)
  moreover have ?no_uri
  proof
    assume a: "u \<in> {None, Some []} \<and> m \<in> {None, Some []} \<and> d \<in> {None, Some []}"
    then have "or_str u (MONGO_URI m d) = []"
      by (simp add: MONGO_URI_def or_str_empty)
    then have r: "connectDB driver m d u c' = (Resolved Null, c', [ConsoleWarn])" for c'
      by (simp add: connectDB_def)
    have "jget (getDBState initial_connection) ''state'' = JStr (lit ''disconnected'')"
      by (rule state_disconnected) (simp add: initial_connection_def)
    with r show "connectDB driver m d u c = (Resolved Null, c, [ConsoleWarn])
        \<and> jget (getDBState (fst (snd (connectDB driver m d u initial_connection)))) ''state''
            = JStr (lit ''disconnected'')"
      by (simp del: lit_simps)
  qed
  moreover have ?failure
  proof
    assume "or_str u (MONGO_URI m d) \<noteq> [] \<and> driver (or_str u (MONGO_URI m d)) = Inl err"
    then have "connectDB driver m d u c =
          (Resolved Null, c\<lparr>readyState := 0\<rparr>,
           [MongooseConnect (or_str u (MONGO_URI m d)), ConsoleError])"
      by (simp add: connectDB_def mongoose_connect_def Let_def)
    moreover have "jget (getDBState (c\<lparr>readyState := 0\<rparr>)) ''state'' = JStr (lit ''disconnected'')"
      by (rule state_disconnected) simp
    ultimately show "connectDB driver m d u c =
          (Resolved Null, c\<lparr>readyState := 0\<rparr>,
           [MongooseConnect (or_str u (MONGO_URI m d)), ConsoleError])
        \<and> jget (getDBState (c\<lparr>readyState := 0\<rparr>)) ''state'' = JStr (lit ''disconnected'')"
      by (simp del: lit_simps)
  qed
  ultimately show ?thesis
    by (intro conjI)
qed

theorem connectDB_always_resolves_witness:
  "connectDB unreachable None (Some []) None live_connection =
     (Resolved Null, live_connection, [ConsoleWarn])
   \<and> connectDB unreachable None None (Some (lit ''mongodb://db/app'')) initial_connection =
     (Resolved Null, initial_connection\<lparr>readyState := 0\<rparr>,
      [MongooseConnect (lit ''mongodb://db/app''), ConsoleError])"
proof -
  have a: "(None :: jsstring option) \<in> {None, Some []} \<and> (None :: jsstring option) \<in> {None, Some []}
           \<and> Some [] \<in> {None, Some ([] :: jsstring)}"
    by simp
  have b: "or_str (Some (lit ''mongodb://db/app'')) (MONGO_URI None None) \<noteq> []
           \<and> unreachable (or_str (Some (lit ''mongodb://db/app'')) (MONGO_URI None None))
              = Inl MongoError"
    by (simp add: unreachable_def)
  have u: "or_str (Some (lit ''mongodb://db/app'')) (MONGO_URI None None) = lit ''mongodb://db/app''"
    by simp
  show ?thesis
    using connectDB_always_resolves [of unreachable None "Some []" None live_connection,
        THEN conjunct2, THEN conjunct1, rule_format, OF a]
      connectDB_always_resolves [of unreachable None None "Some (lit ''mongodb://db/app'')"
        initial_connection MongoError, THEN conjunct2, THEN conjunct2, rule_format, OF b]
    by (simp only: u)
qed

section \<open>The health report\<close>

text \<open>
  With no database URI configured, the \<^verbatim>\<open>db\<close> member of the health payload is
  \<^verbatim>\<open>{readyState, state, host, port}\<close>: it has no member \<^verbatim>\<open>phase\<close>.
\<close>

theorem health_without_uri_counterexample:
  "get_health 7 None (fst (snd (connectDB unreachable None None None initial_connection))) =
     Response 200
       (JObj [(''status'', JStr (lit ''OK'')),
              (''message'', JStr (lit ''Server is running!'')),
              (''timestamp'', JDate 7),
              (''environment'', JStr (lit ''development'')),
              (''db'', JObj [(''readyState'', JNum 0), (''state'', JStr (lit ''disconnected'')),
                             (''host'', JNull), (''port'', JNull)])])
   \<and> jget (JObj [(''readyState'', JNum 0), (''state'', JStr (lit ''disconnected'')),
                 (''host'', JNull), (''port'', JNull)]) ''phase'' = JUndefined
   \<and> JUndefined \<noteq> JStr (lit ''disconnected'')"
  by (simp add: get_health_def connectDB_def MONGO_URI_def getDBState_def stateMap_def
      initial_connection_def)

text \<open>
  C9, amended. When no database URI is configured (\<^verbatim>\<open>MONGO_URI\<close> and \<^verbatim>\<open>DATABASE_URL\<close>
  absent or empty) and the server has started, the health payload is
  \<^verbatim>\<open>{status, message, timestamp, environment, db: {readyState, state, host, port}}\<close> with
  \<^verbatim>\<open>db.state\<close> equal to "disconnected", \<^verbatim>\<open>db.readyState\<close> 0 and \<^verbatim>\<open>db.host\<close>, \<^verbatim>\<open>db.port\<close>
  null.
\<close>

theorem health_without_uri:
  assumes "m \<in> {None, Some []}" and "d \<in> {None, Some []}"
  shows "get_health clock nenv (fst (snd (connectDB driver m d None initial_connection))) =
           Response 200
             (JObj [(''status'', JStr (lit ''OK'')),
                    (''message'', JStr (lit ''Server is running!'')),
                    (''timestamp'', JDate clock),
                    (''environment'', JStr (or_str nenv (lit ''development''))),
                    (''db'', JObj [(''readyState'', JNum 0),
                                   (''state'', JStr (lit ''disconnected'')),
                                   (''host'', JNull), (''port'', JNull)])])"
proof -
  have "or_str None (MONGO_URI m d) = []"
    using assms by (simp add: MONGO_URI_def or_str_empty)
  then have "connectDB driver m d None initial_connection =
               (Resolved Null, initial_connection, [ConsoleWarn])"
    by (simp add: connectDB_def)
  moreover have "getDBState initial_connection =
                   JObj [(''readyState'', JNum 0), (''state'', JStr (lit ''disconnected'')),
                         (''host'', JNull), (''port'', JNull)]"
    by (simp add: getDBState_def stateMap_def initial_connection_def del: lit_simps)
  ultimately show ?thesis
    by (simp add: get_health_def del: lit_simps)
qed

theorem health_without_uri_witness:
  "get_health 7 (Some (lit ''production''))
     (fst (snd (connectDB unreachable None (Some []) None initial_connection))) =
     Response 200
       (JObj [(''status'', JStr (lit ''OK'')),
              (''message'', JStr (lit ''Server is running!'')),
              (''timestamp'', JDate 7),
              (''environment'', JStr (lit ''production'')),
              (''db'', JObj [(''readyState'', JNum 0), (''state'', JStr (lit ''disconnected'')),
                             (''host'', JNull), (''port'', JNull)])])"
proof -
  have h1: "(None :: jsstring option) \<in> {None, Some []}"
    by simp
  have h2: "Some [] \<in> {None, Some ([] :: jsstring)}"
    by simp
  have e: "or_str (Some (lit ''production'')) (lit ''development'') = lit ''production''"
    by simp
  show ?thesis
    using health_without_uri [OF h1 h2, of 7 "Some (lit ''production'')" unreachable]
    by (simp only: e)
qed

end
